theory Spec2Isabelle
  imports Main "HOL-Library.Word"
begin

section \<open>The version comparator (sql.c in src/unnamed/part_001, \<open>rpm_vercomp\<close>)\<close>

text \<open>
  A C string is modelled by the list of its bytes before the terminating NUL, and a
  pointer into it by the suffix that starts there: \<open>*ptr = '\0'\<close> is \<open>ptr = []\<close>,
  \<open>ptr++\<close> is \<open>tl ptr\<close>. The character classes are those of \<open>ctype.h\<close> in the C locale.
\<close>

definition isdigit :: "char \<Rightarrow> bool" where
  "isdigit c \<longleftrightarrow> 48 \<le> (of_char c :: nat) \<and> (of_char c :: nat) \<le> 57"

definition isalpha :: "char \<Rightarrow> bool" where
  "isalpha c \<longleftrightarrow> (65 \<le> (of_char c :: nat) \<and> (of_char c :: nat) \<le> 90)
     \<or> (97 \<le> (of_char c :: nat) \<and> (of_char c :: nat) \<le> 122)"

definition isalnum :: "char \<Rightarrow> bool" where
  "isalnum c \<longleftrightarrow> isalpha c \<or> isdigit c"

text \<open>\<open>isdigit(*ptr)\<close> and \<open>isalpha(*ptr)\<close>: the terminator is in neither class.\<close>

definition digit_at :: "string \<Rightarrow> bool" where
  "digit_at ptr \<longleftrightarrow> (case ptr of [] \<Rightarrow> False | c # _ \<Rightarrow> isdigit c)"

definition alpha_at :: "string \<Rightarrow> bool" where
  "alpha_at ptr \<longleftrightarrow> (case ptr of [] \<Rightarrow> False | c # _ \<Rightarrow> isalpha c)"

text \<open>\<open>while (*ptr != '\0' && !isalnum(*ptr)) ptr++;\<close>\<close>

definition skip_nonalnum :: "string \<Rightarrow> string" where
  "skip_nonalnum ptr = dropWhile (\<lambda>c. \<not> isalnum c) ptr"

text \<open>\<open>while (ptr != eptr && *ptr == '0') ptr++;\<close> on the run between \<open>ptr\<close> and \<open>eptr\<close>.\<close>

definition skip_zeros :: "string \<Rightarrow> string" where
  "skip_zeros seg = dropWhile (\<lambda>c. c = CHR ''0'') seg"

text \<open>
  Lines 154 to 159: walk both runs while the bytes agree; if both runs still have a byte,
  return their difference, otherwise (one run is used up) decide nothing.
\<close>

fun compare_runs :: "string \<Rightarrow> string \<Rightarrow> int option" where
  "compare_runs (x # xs) (y # ys) =
     (if x = y then compare_runs xs ys else Some (of_char x - of_char y))"
| "compare_runs _ _ = None"

text \<open>Lines 165 to 178, after the loop.\<close>

definition after_loop :: "string \<Rightarrow> string \<Rightarrow> int" where
  "after_loop ptrA ptrB =
     (if ptrA = [] \<and> ptrB = [] then 0 else if ptrA \<noteq> [] then 1 else - 1)"

text \<open>The \<open>while\<close> loop of lines 87 to 163, one call per iteration.\<close>

function vercomp_loop :: "string \<Rightarrow> string \<Rightarrow> int" where
  "vercomp_loop ptrA ptrB =
     (if ptrA = [] \<or> ptrB = [] then after_loop ptrA ptrB
      else if \<not> digit_at (skip_nonalnum ptrB) \<and> digit_at (skip_nonalnum ptrA) then 1
      else if (digit_at (skip_nonalnum ptrA) \<and> alpha_at (skip_nonalnum ptrB))
            \<or> (alpha_at (skip_nonalnum ptrA) \<and> digit_at (skip_nonalnum ptrB)) then - 1
      else if alpha_at (skip_nonalnum ptrA) then
        (case compare_runs (takeWhile isalpha (skip_nonalnum ptrA))
                           (takeWhile isalpha (skip_nonalnum ptrB)) of
           Some d \<Rightarrow> d
         | None \<Rightarrow> vercomp_loop (dropWhile isalpha (skip_nonalnum ptrA))
                                (dropWhile isalpha (skip_nonalnum ptrB)))
      else if length (skip_zeros (takeWhile isdigit (skip_nonalnum ptrA)))
              > length (skip_zeros (takeWhile isdigit (skip_nonalnum ptrB))) then 1
      else if length (skip_zeros (takeWhile isdigit (skip_nonalnum ptrB)))
              > length (skip_zeros (takeWhile isdigit (skip_nonalnum ptrA))) then - 1
      else
        (case compare_runs (skip_zeros (takeWhile isdigit (skip_nonalnum ptrA)))
                           (skip_zeros (takeWhile isdigit (skip_nonalnum ptrB))) of
           Some d \<Rightarrow> d
         | None \<Rightarrow> vercomp_loop (dropWhile isdigit (skip_nonalnum ptrA))
                                (dropWhile isdigit (skip_nonalnum ptrB))))"
  by pat_completeness auto

lemma length_skip_nonalnum: "length (skip_nonalnum p) \<le> length p"
  by (simp add: skip_nonalnum_def length_dropWhile_le)

lemma alpha_at_shorter: "alpha_at p \<Longrightarrow> length (dropWhile isalpha p) < length p"
  by (cases p) (auto simp: alpha_at_def intro: le_imp_less_Suc length_dropWhile_le)

lemma digit_at_shorter: "digit_at p \<Longrightarrow> length (dropWhile isdigit p) < length p"
  by (cases p) (auto simp: digit_at_def intro: le_imp_less_Suc length_dropWhile_le)

lemma skip_nonalnum_class:
  "skip_nonalnum p = [] \<or> alpha_at (skip_nonalnum p) \<or> digit_at (skip_nonalnum p)"
proof (cases "skip_nonalnum p")
  case Nil
  then show ?thesis by simp
next
  case (Cons c cs)
  then have "isalnum (hd (dropWhile (\<lambda>c. \<not> isalnum c) p))"
    using hd_dropWhile [of "\<lambda>c. \<not> isalnum c" p] by (auto simp: skip_nonalnum_def)
  with Cons show ?thesis
    by (auto simp: skip_nonalnum_def alpha_at_def digit_at_def isalnum_def)
qed

lemma alpha_step_shorter:
  "alpha_at (skip_nonalnum p) \<Longrightarrow> length (dropWhile isalpha (skip_nonalnum p)) < length p"
  using alpha_at_shorter [of "skip_nonalnum p"] length_skip_nonalnum [of p] by linarith

lemma digit_step_shorter:
  assumes "p \<noteq> []" and "\<not> alpha_at (skip_nonalnum p)"
  shows "length (dropWhile isdigit (skip_nonalnum p)) < length p"
proof (cases "skip_nonalnum p = []")
  case True
  with assms(1) show ?thesis by simp
next
  case False
  with assms(2) skip_nonalnum_class [of p] have "digit_at (skip_nonalnum p)" by blast
  then show ?thesis
    using digit_at_shorter [of "skip_nonalnum p"] length_skip_nonalnum [of p] by linarith
qed

termination vercomp_loop
proof (relation "measure (\<lambda>(ptrA, ptrB). length ptrA)")
  show "wf (measure (\<lambda>(ptrA, ptrB). length ptrA))" by simp
next
  fix ptrA ptrB :: string
  assume "alpha_at (skip_nonalnum ptrA)"
  then show "((dropWhile isalpha (skip_nonalnum ptrA), dropWhile isalpha (skip_nonalnum ptrB)),
              (ptrA, ptrB)) \<in> measure (\<lambda>(ptrA, ptrB). length ptrA)"
    by (simp add: alpha_step_shorter)
next
  fix ptrA ptrB :: string
  assume "\<not> (ptrA = [] \<or> ptrB = [])" and "\<not> alpha_at (skip_nonalnum ptrA)"
  then show "((dropWhile isdigit (skip_nonalnum ptrA), dropWhile isdigit (skip_nonalnum ptrB)),
              (ptrA, ptrB)) \<in> measure (\<lambda>(ptrA, ptrB). length ptrA)"
    by (simp add: digit_step_shorter)
qed

text \<open>\<open>rpm_vercomp\<close>: the \<open>strcmp\<close> shortcut of line 82, then the loop.\<close>

definition rpm_vercomp :: "string \<Rightarrow> string \<Rightarrow> int" where
  "rpm_vercomp versionA versionB =
     (if versionA = versionB then 0 else vercomp_loop versionA versionB)"

section \<open>The registry database (sql.c, \<open>create_tables\<close> and \<open>init_db\<close>)\<close>

text \<open>
  The tables are lists of rows in insertion order. \<open>registry.ports\<close> has the ten columns
  of \<open>create_tables\<close> and SQLite's \<open>rowid\<close>; this code stores text in them or leaves them
  NULL, so a column holds \<open>Some\<close> text or \<open>None\<close> (NULL). \<open>registry.files\<close> has
  \<open>port_id\<close>, bound from an entry's rowid, \<open>path\<close>, and \<open>mtime\<close>, which nothing here
  writes. \<open>entry_procs\<close> is the temporary table of \<open>init_db\<close>. The tables \<open>metadata\<close>,
  \<open>items\<close> and \<open>indexes\<close> are not touched by the functions below and are left out.
\<close>

record ports_row =
  p_rowid :: int
  p_name :: "string option"
  p_portfile :: "string option"
  p_url :: "string option"
  p_location :: "string option"
  p_epoch :: "string option"
  p_version :: "string option"
  p_revision :: "string option"
  p_variants :: "string option"
  p_state :: "string option"
  p_date :: "string option"

record files_row =
  f_port_id :: int
  f_path :: string
  f_mtime :: "int option"

record sqlite3 =
  ports :: "ports_row list"
  files :: "files_row list"
  entry_procs :: "(int \<times> string) list"

text \<open>centry.h: \<open>reg_entry\<close> (its \<open>db\<close> field is the one connection) and \<open>reg_error\<close>.\<close>

record reg_entry =
  rowid :: int

text \<open>
  The description of an error is a string constant of the source, or the text that
  \<open>reg_sqlite_error\<close> formats from SQLite's own message and the query, or was never
  assigned.
\<close>

datatype err_text = Static string | Sqlite_errmsg "string option" | Unset

record reg_error =
  code :: string
  description :: err_text

definition reg_sqlite_error :: "string option \<Rightarrow> reg_error" where
  "reg_sqlite_error query =
     \<lparr>code = ''registry::sqlite-error'', description = Sqlite_errmsg query\<rparr>"

subsection \<open>The SQL statements\<close>

text \<open>
  Each statement is modelled by what SQLite documents for it; \<open>sqlite3_prepare\<close> and the
  binds succeed. Two values are equal for a UNIQUE index or a comparison when neither is
  NULL and the column's collation says so. The default \<open>BINARY\<close> compares the two texts
  with their lengths: they are equal when they are the same bytes.
\<close>

definition eq_binary :: "string option \<Rightarrow> string option \<Rightarrow> bool" where
  "eq_binary a b =
     (case a of None \<Rightarrow> False | Some x \<Rightarrow> (case b of None \<Rightarrow> False | Some y \<Rightarrow> x = y))"

text \<open>
  \<open>VERSION\<close> is \<open>sql_version\<close>, which \<open>init_db\<close> registers for the columns \<open>version\<close>
  and \<open>revision\<close>. SQLite passes each text as a length and a pointer; \<open>sql_version\<close>
  leaves both lengths unused and calls \<open>rpm_vercomp\<close> on the pointers, so each text is
  read up to the first NUL byte that lies in memory from its pointer on. The arguments of
  the model are the bytes from the two pointers on.
\<close>

definition c_string :: "string \<Rightarrow> string" where
  "c_string mem = takeWhile (\<lambda>c. c \<noteq> CHR 0x00) mem"

definition sql_version :: "string \<Rightarrow> string \<Rightarrow> int" where
  "sql_version a b = rpm_vercomp (c_string a) (c_string b)"

text \<open>
  A text bound with \<open>sqlite3_bind_text(stmt, n, text, -1, SQLITE_STATIC)\<close> is the caller's
  C string and ends in a NUL, and so does a value SQLite has read from a row. A stored key
  is handed to the collation where it lies in the record of an index, whose columns follow
  one another without terminators. Four indexes of \<open>registry.ports\<close> hold \<open>version\<close>
  and \<open>revision\<close>: those of the two UNIQUE constraints, \<open>port_name\<close> and \<open>port_url\<close>.
  In each of them the bytes of \<open>version\<close> are followed by those of \<open>revision\<close> and of
  \<open>variants\<close> (a NULL has none), then by the rowid that ends the record and by whatever
  the page holds after it. These last bytes are not determined by the tables: they are
  the parameter \<open>rest\<close>, given for each index and each stored row. The stored key is
  the collation's first argument.
\<close>

datatype ports_index = Unique_name | Unique_url | Port_name | Port_url

definition text_bytes :: "string option \<Rightarrow> string" where
  "text_bytes v = (case v of None \<Rightarrow> [] | Some s \<Rightarrow> s)"

text \<open>
  The stored \<open>version\<close> and \<open>revision\<close> of a row, followed in its key by the bytes
  \<open>after\<close>, against a text.
\<close>

definition stored_version_equal :: "string \<Rightarrow> ports_row \<Rightarrow> string \<Rightarrow> bool" where
  "stored_version_equal after old version =
     (case p_version old of
        None \<Rightarrow> False
      | Some v \<Rightarrow>
          sql_version (v @ text_bytes (p_revision old) @ text_bytes (p_variants old) @ after)
            (version @ [CHR 0x00]) = 0)"

definition stored_revision_equal :: "string \<Rightarrow> ports_row \<Rightarrow> string \<Rightarrow> bool" where
  "stored_revision_equal after old revision =
     (case p_revision old of
        None \<Rightarrow> False
      | Some r \<Rightarrow>
          sql_version (r @ text_bytes (p_variants old) @ after) (revision @ [CHR 0x00]) = 0)"

text \<open>
  \<open>UNIQUE (name, epoch, version, revision, variants)\<close>: a stored row against the values
  of a new one. (When a table has several rows SQLite compares the new key with the keys
  on its search path only; the model compares it with every stored key.)
\<close>

definition unique_name_violated ::
  "(ports_index \<Rightarrow> ports_row \<Rightarrow> string) \<Rightarrow> ports_row
     \<Rightarrow> string \<Rightarrow> string \<Rightarrow> string \<Rightarrow> string \<Rightarrow> string \<Rightarrow> bool" where
  "unique_name_violated rest old name version revision variants epoch \<longleftrightarrow>
     eq_binary (p_name old) (Some name) \<and> eq_binary (p_epoch old) (Some epoch)
     \<and> stored_version_equal (rest Unique_name old) old version
     \<and> stored_revision_equal (rest Unique_name old) old revision
     \<and> eq_binary (p_variants old) (Some variants)"

text \<open>The rowid SQLite gives a new row: one more than the largest in the table, or 1.\<close>

definition next_rowid :: "ports_row list \<Rightarrow> int" where
  "next_rowid rows =
     (case rows of [] \<Rightarrow> 1 | r # rs \<Rightarrow> fold max (map p_rowid rs) (p_rowid r) + 1)"

text \<open>
  \<open>INSERT INTO registry.ports (name, version, revision, variants, epoch) VALUES (?, ?, ?, ?, ?)\<close>:
  \<open>None\<close> is \<open>SQLITE_CONSTRAINT\<close>, otherwise the new rowid and the table with the row.
  The new row's \<open>url\<close> is NULL, and a NULL is distinct from every value of a UNIQUE index,
  so \<open>UNIQUE (url, epoch, version, revision, variants)\<close> never refuses the row.
\<close>

definition insert_port ::
  "(ports_index \<Rightarrow> ports_row \<Rightarrow> string) \<Rightarrow> sqlite3 \<Rightarrow> string \<Rightarrow> string \<Rightarrow> string \<Rightarrow> string \<Rightarrow> string
     \<Rightarrow> (int \<times> sqlite3) option" where
  "insert_port rest db name version revision variants epoch =
     (if list_ex (\<lambda>old. unique_name_violated rest old name version revision variants epoch)
           (ports db)
      then None
      else Some (next_rowid (ports db),
                 db\<lparr>ports := ports db @
                    [\<lparr>p_rowid = next_rowid (ports db), p_name = Some name, p_portfile = None,
                      p_url = None, p_location = None, p_epoch = Some epoch,
                      p_version = Some version, p_revision = Some revision,
                      p_variants = Some variants, p_state = None, p_date = None\<rparr>]\<rparr>))"

text \<open>
  \<open>DELETE FROM registry.ports WHERE rowid=?\<close>, with \<open>sqlite3_changes\<close>. SQLite removes
  the row and its key from every index of the table, and looks each key up with the
  collations of the index: the stored key against the values of the row. The columns
  under \<open>BINARY\<close> are found equal; a NULL is found equal to the NULL of the row; a
  \<open>version\<close> or \<open>revision\<close> that is a text goes through \<open>sql_version\<close>. (In a table
  with several rows the path SQLite takes through an index depends on the other keys as
  well; the model looks at the key of the row itself.)
\<close>

definition key_found :: "string \<Rightarrow> ports_row \<Rightarrow> bool" where
  "key_found after r \<longleftrightarrow>
     (case p_version r of None \<Rightarrow> True | Some v \<Rightarrow> stored_version_equal after r v)
     \<and> (case p_revision r of None \<Rightarrow> True | Some w \<Rightarrow> stored_revision_equal after r w)"

text \<open>
  A key that is not found ends the step in an error (\<open>SQLITE_CORRUPT\<close>) with nothing
  removed: \<open>None\<close>. Otherwise the result is the number of rows removed and the table
  without them.
\<close>

definition delete_port ::
  "(ports_index \<Rightarrow> ports_row \<Rightarrow> string) \<Rightarrow> sqlite3 \<Rightarrow> int \<Rightarrow> (nat \<times> sqlite3) option" where
  "delete_port rest db rid =
     (if list_all (\<lambda>r. list_all (\<lambda>ix. key_found (rest ix r) r)
                            [Unique_name, Unique_url, Port_name, Port_url])
           (filter (\<lambda>r. p_rowid r = rid) (ports db))
      then Some (length (filter (\<lambda>r. p_rowid r = rid) (ports db)),
                 db\<lparr>ports := filter (\<lambda>r. p_rowid r \<noteq> rid) (ports db)\<rparr>)
      else None)"

text \<open>
  \<open>INSERT INTO registry.files (port_id, path) VALUES (?, ?)\<close> under \<open>path UNIQUE\<close>:
  \<open>None\<close> is \<open>SQLITE_CONSTRAINT\<close>.
\<close>

definition insert_file :: "sqlite3 \<Rightarrow> int \<Rightarrow> string \<Rightarrow> sqlite3 option" where
  "insert_file db pid pth =
     (if list_ex (\<lambda>r. f_path r = pth) (files db) then None
      else Some (db\<lparr>files := files db @ [\<lparr>f_port_id = pid, f_path = pth, f_mtime = None\<rparr>]\<rparr>))"

text \<open>\<open>DELETE FROM registry.files WHERE port_id=? AND path=?\<close>, with \<open>sqlite3_changes\<close>.\<close>

definition delete_file :: "sqlite3 \<Rightarrow> int \<Rightarrow> string \<Rightarrow> nat \<times> sqlite3" where
  "delete_file db pid pth =
     (length (filter (\<lambda>r. f_port_id r = pid \<and> f_path r = pth) (files db)),
      db\<lparr>files := filter (\<lambda>r. \<not> (f_port_id r = pid \<and> f_path r = pth)) (files db)\<rparr>)"

text \<open>
  \<open>SELECT path FROM files WHERE port_id=?\<close>: the paths an entry owns, in the order of
  the table.
\<close>

definition select_files :: "sqlite3 \<Rightarrow> int \<Rightarrow> string list" where
  "select_files db pid = map f_path (filter (\<lambda>r. f_port_id r = pid) (files db))"

section \<open>The entry store (src/registry2.0/centry.c)\<close>

text \<open>
  The database is passed in and returned. \<open>reg_entry_create\<close> returns the entry, or
  the error it writes to \<open>errPtr\<close> when it returns \<open>NULL\<close>. The functions that return a
  count return the error record beside it; \<open>None\<close> means \<open>errPtr\<close> was not written.
  \<open>reg_entry_create\<close> and \<open>reg_entry_delete\<close> pass on the parameter of their
  statements.
\<close>

definition reg_entry_create ::
  "(ports_index \<Rightarrow> ports_row \<Rightarrow> string) \<Rightarrow> sqlite3 \<Rightarrow> string \<Rightarrow> string \<Rightarrow> string \<Rightarrow> string \<Rightarrow> string
     \<Rightarrow> (reg_error + reg_entry) \<times> sqlite3" where
  "reg_entry_create rest db name version revision variants epoch =
     (case insert_port rest db name version revision variants epoch of
        Some (rid, db') \<Rightarrow> (Inr \<lparr>rowid = rid\<rparr>, db')
      | None \<Rightarrow>
          (Inl (reg_sqlite_error (Some (''INSERT INTO registry.ports ''
             @ ''(name, version, revision, variants, epoch) VALUES (?, ?, ?, ?, ?)''))),
           db))"

text \<open>
  \<open>reg_entry_delete\<close>: the loop from index \<open>i\<close> on; the result is the number deleted.
  A step that fails ends the loop with the error of \<open>reg_sqlite_error\<close>, a step that
  removes no row with \<open>registry::invalid-entry\<close>.
\<close>

fun reg_entry_delete_from ::
  "(ports_index \<Rightarrow> ports_row \<Rightarrow> string) \<Rightarrow> sqlite3 \<Rightarrow> reg_entry list \<Rightarrow> int
     \<Rightarrow> int \<times> reg_error option \<times> sqlite3" where
  "reg_entry_delete_from rest db [] i = (i, None, db)"
| "reg_entry_delete_from rest db (e # es) i =
     (case delete_port rest db (rowid e) of
        Some (changes, db') \<Rightarrow>
          if changes = 0
          then (i, Some \<lparr>code = ''registry::invalid-entry'',
                         description = Static ''an invalid entry was passed''\<rparr>, db')
          else reg_entry_delete_from rest db' es (i + 1)
      | None \<Rightarrow>
          (i, Some (reg_sqlite_error (Some ''DELETE FROM registry.ports WHERE rowid=?'')), db))"

definition reg_entry_delete ::
  "(ports_index \<Rightarrow> ports_row \<Rightarrow> string) \<Rightarrow> sqlite3 \<Rightarrow> reg_entry list
     \<Rightarrow> int \<times> reg_error option \<times> sqlite3" where
  "reg_entry_delete rest db entries = reg_entry_delete_from rest db entries 0"

text \<open>\<open>reg_entry_map\<close>: the loop from index \<open>i\<close> on.\<close>

fun reg_entry_map_from ::
  "sqlite3 \<Rightarrow> reg_entry \<Rightarrow> string list \<Rightarrow> int \<Rightarrow> int \<times> reg_error option \<times> sqlite3" where
  "reg_entry_map_from db entry [] i = (i, None, db)"
| "reg_entry_map_from db entry (f # fs) i =
     (case insert_file db (rowid entry) f of
        Some db' \<Rightarrow> reg_entry_map_from db' entry fs (i + 1)
      | None \<Rightarrow>
          (i, Some \<lparr>code = ''registry::already-owned'',
                    description = Static ''mapped file is already owned by another entry''\<rparr>,
           db))"

definition reg_entry_map ::
  "sqlite3 \<Rightarrow> reg_entry \<Rightarrow> string list \<Rightarrow> int \<times> reg_error option \<times> sqlite3" where
  "reg_entry_map db entry fs = reg_entry_map_from db entry fs 0"

text \<open>
  \<open>reg_entry_unmap\<close>: the loop from index \<open>i\<close> on. Lines 500 and 501 assign
  \<open>errPtr->code\<close> twice and never the description, so the code that remains is the
  second string.
\<close>

fun reg_entry_unmap_from ::
  "sqlite3 \<Rightarrow> reg_entry \<Rightarrow> string list \<Rightarrow> int \<Rightarrow> int \<times> reg_error option \<times> sqlite3" where
  "reg_entry_unmap_from db entry [] i = (i, None, db)"
| "reg_entry_unmap_from db entry (f # fs) i =
     (case delete_file db (rowid entry) f of
        (changes, db') \<Rightarrow>
          if changes = 0
          then (i, Some \<lparr>code = ''this entry does not own the given file'',
                         description = Unset\<rparr>, db')
          else reg_entry_unmap_from db' entry fs (i + 1))"

definition reg_entry_unmap ::
  "sqlite3 \<Rightarrow> reg_entry \<Rightarrow> string list \<Rightarrow> int \<times> reg_error option \<times> sqlite3" where
  "reg_entry_unmap db entry fs = reg_entry_unmap_from db entry fs 0"

section \<open>The entry object's file commands (src/unnamed/part_000)\<close>

text \<open>
  A command procedure returns a Tcl completion code and leaves its result in the
  interpreter. The evaluator resets that result before it calls the procedure, so the
  result is modelled as an output: a string, a list, the text \<open>set_sqlite_result\<close>
  builds from SQLite's message and the query, what \<open>registry_failed\<close> sets from an error
  record (its description as result, its code as \<open>errorCode\<close>), or one of Tcl's own
  messages for a wrong argument count or an unknown keyword.
\<close>

datatype tcl_code = TCL_OK | TCL_ERROR

datatype tcl_obj =
    StringObj string
  | ListObj "string list"
  | BooleanObj bool
  | SqliteResult "string option"
  | RegistryFailed reg_error
  | WrongNumArgs string
  | BadIndex string string

text \<open>
  \<open>sqlite3_bind_int(stmt, 1, entry->rowid)\<close>: the rowid is converted to a C \<open>int\<close>,
  which keeps its low 32 bits. (The header that declares \<open>entry_t\<close> is not among the
  sources; the procedures receive the \<open>reg_entry\<close> that \<open>set_entry\<close> stored as client
  data, and \<open>entry_obj_prop\<close> prints the field with \<open>%lld\<close>, so it is the 64-bit rowid.)
\<close>

definition c_int :: "int \<Rightarrow> int" where
  "c_int x = sint (word_of_int x :: 32 word)"

text \<open>
  \<open>entry_obj_map\<close> and \<open>entry_obj_unmap\<close>: \<open>objv\<close> is the whole command (\<open>objv[0]\<close>
  the entry's procedure, \<open>objv[1]\<close> the subcommand), the loops run over \<open>objv[2]\<close>
  onwards.
\<close>

fun entry_obj_map_from :: "sqlite3 \<Rightarrow> int \<Rightarrow> string list \<Rightarrow> tcl_code \<times> tcl_obj \<times> sqlite3" where
  "entry_obj_map_from db pid [] = (TCL_OK, StringObj [], db)"
| "entry_obj_map_from db pid (path # rest) =
     (case insert_file db pid path of
        Some db' \<Rightarrow> entry_obj_map_from db' pid rest
      | None \<Rightarrow>
          (TCL_ERROR, SqliteResult (Some ''INSERT INTO files (port_id, path) VALUES (?, ?)''),
           db))"

definition entry_obj_map :: "sqlite3 \<Rightarrow> reg_entry \<Rightarrow> string list \<Rightarrow> tcl_code \<times> tcl_obj \<times> sqlite3" where
  "entry_obj_map db entry objv = entry_obj_map_from db (c_int (rowid entry)) (drop 2 objv)"

fun entry_obj_unmap_from :: "sqlite3 \<Rightarrow> int \<Rightarrow> string list \<Rightarrow> tcl_code \<times> tcl_obj \<times> sqlite3" where
  "entry_obj_unmap_from db pid [] = (TCL_OK, StringObj [], db)"
| "entry_obj_unmap_from db pid (path # rest) =
     (case delete_file db pid path of
        (changes, db') \<Rightarrow>
          if changes = 0
          then (TCL_ERROR, StringObj (path @ '' is not mapped to this entry''), db')
          else entry_obj_unmap_from db' pid rest)"

definition entry_obj_unmap :: "sqlite3 \<Rightarrow> reg_entry \<Rightarrow> string list \<Rightarrow> tcl_code \<times> tcl_obj \<times> sqlite3" where
  "entry_obj_unmap db entry objv = entry_obj_unmap_from db (c_int (rowid entry)) (drop 2 objv)"

text \<open>
  \<open>entry_obj_files\<close>: \<open>objv\<close> must be the procedure and the subcommand alone; the
  result is the list of the paths of \<open>SELECT path FROM files WHERE port_id=?\<close>, with
  the rowid bound by \<open>sqlite3_bind_int64\<close>.
\<close>

definition entry_obj_files :: "sqlite3 \<Rightarrow> reg_entry \<Rightarrow> string list \<Rightarrow> tcl_code \<times> tcl_obj \<times> sqlite3" where
  "entry_obj_files db entry objv =
     (if length objv \<noteq> 2 then (TCL_ERROR, WrongNumArgs ''files'', db)
      else (TCL_OK, ListObj (select_files db (rowid entry)), db))"

section \<open>The interpreter's commands (util.c after entry.c, registry.c after part_000)\<close>

text \<open>
  Of the Tcl interpreter the code uses the command table and two pieces of associated
  data: the session's SQLite connection (\<open>registry::db\<close>, opened on first use by
  \<open>registry_db\<close> with the temporary tables of \<open>init_db\<close>) and the flag
  \<open>registry::attached\<close>. A command is an entry object (its procedure is
  \<open>entry_obj_cmd\<close>, its client data the \<open>reg_entry\<close>) or any other command. Names are
  compared as written.
\<close>

datatype command = Entry_obj reg_entry | Other_command

record interp =
  commands :: "(string \<times> command) list"
  assoc_db :: sqlite3
  assoc_attached :: bool

text \<open>\<open>registry_db(interp, attached)\<close>: \<open>None\<close> is \<open>NULL\<close>.\<close>

definition registry_db :: "interp \<Rightarrow> bool \<Rightarrow> sqlite3 option" where
  "registry_db interp attached =
     (if attached \<and> \<not> assoc_attached interp then None else Some (assoc_db interp))"

text \<open>\<open>sprintf(result, "%s%d", prefix, i)\<close> for \<open>i \<ge> 0\<close>: the decimal digits of \<open>i\<close>.\<close>

fun sprintf_d :: "nat \<Rightarrow> string" where
  "sprintf_d n =
     (if n < 10 then [char_of (48 + n)]
      else sprintf_d (n div 10) @ [char_of (48 + n mod 10)])"

declare sprintf_d.simps [simp del]

lemma sprintf_d_nonempty: "sprintf_d n \<noteq> []"
  by (subst sprintf_d.simps) simp

lemma digit_char_inj:
  assumes "a < 10" and "b < 10" and "char_of (48 + a :: nat) = char_of (48 + b :: nat)"
  shows "a = b"
proof -
  have "of_char (char_of (48 + a :: nat)) = (of_char (char_of (48 + b :: nat)) :: nat)"
    using assms(3) by simp
  then have "(48 + a) mod 256 = (48 + b) mod 256" by (simp only: of_char_of)
  with assms(1,2) show ?thesis by simp
qed

lemma sprintf_d_inj: "sprintf_d m = sprintf_d n \<Longrightarrow> m = n"
proof (induction m arbitrary: n rule: sprintf_d.induct)
  case (1 m)
  show ?case
  proof (cases "m < 10")
    case m: True
    show ?thesis
    proof (cases "n < 10")
      case True
      with m "1.prems" show ?thesis
        by (subst (asm) (1 2) sprintf_d.simps) (simp add: digit_char_inj)
    next
      case False
      with m "1.prems" sprintf_d_nonempty [of "n div 10"] show ?thesis
        by (subst (asm) (1 2) sprintf_d.simps) (cases "sprintf_d (n div 10)", simp_all)
    qed
  next
    case m: False
    show ?thesis
    proof (cases "n < 10")
      case True
      with m "1.prems" sprintf_d_nonempty [of "m div 10"] show ?thesis
        by (subst (asm) (1 2) sprintf_d.simps) (cases "sprintf_d (m div 10)", simp_all)
    next
      case False
      with m "1.prems" have e: "sprintf_d (m div 10) = sprintf_d (n div 10)"
        and c: "char_of (48 + m mod 10) = char_of (48 + n mod 10)"
        by (subst (asm) (1 2) sprintf_d.simps, simp)+
      from "1.IH" [OF m e] have "m div 10 = n div 10" .
      moreover from c have "m mod 10 = n mod 10" by (intro digit_char_inj) simp_all
      ultimately show ?thesis by (metis div_mult_mod_eq)
    qed
  qed
qed

text \<open>
  \<open>unique_name\<close>: the first \<open>i\<close>, counting from 0, for which no command is named
  \<open>prefix\<close> followed by \<open>i\<close>.
\<close>

function unique_name_from :: "(string \<times> command) list \<Rightarrow> string \<Rightarrow> nat \<Rightarrow> string" where
  "unique_name_from cmds prefix i =
     (if map_of cmds (prefix @ sprintf_d i) \<noteq> None then unique_name_from cmds prefix (Suc i)
      else prefix @ sprintf_d i)"
  by pat_completeness auto

lemma finite_taken_names:
  "finite {j. i \<le> j \<and> map_of cmds (prefix @ sprintf_d j) \<noteq> None}"
proof -
  have inj: "inj (\<lambda>j. prefix @ sprintf_d j)"
    by (rule injI) (simp add: sprintf_d_inj)
  have "{j. i \<le> j \<and> map_of cmds (prefix @ sprintf_d j) \<noteq> None}
      \<subseteq> (\<lambda>j. prefix @ sprintf_d j) -` dom (map_of cmds)"
    by auto
  moreover have "finite ((\<lambda>j. prefix @ sprintf_d j) -` dom (map_of cmds))"
    using inj by (intro finite_vimageI) (simp_all add: finite_dom_map_of)
  ultimately show ?thesis by (rule finite_subset)
qed

termination unique_name_from
proof (relation "measure (\<lambda>(cmds, prefix, i).
    card {j. i \<le> j \<and> map_of cmds (prefix @ sprintf_d j) \<noteq> None})")
  show "wf (measure (\<lambda>(cmds, prefix, i).
    card {j. i \<le> j \<and> map_of cmds (prefix @ sprintf_d j) \<noteq> None}))" by simp
next
  fix cmds :: "(string \<times> command) list" and prefix :: string and i :: nat
  assume taken: "map_of cmds (prefix @ sprintf_d i) \<noteq> None"
  have "i \<in> {j. i \<le> j \<and> map_of cmds (prefix @ sprintf_d j) \<noteq> None}"
    and "i \<notin> {j. Suc i \<le> j \<and> map_of cmds (prefix @ sprintf_d j) \<noteq> None}"
    and "{j. Suc i \<le> j \<and> map_of cmds (prefix @ sprintf_d j) \<noteq> None}
      \<subseteq> {j. i \<le> j \<and> map_of cmds (prefix @ sprintf_d j) \<noteq> None}"
    using taken by auto
  then have "{j. Suc i \<le> j \<and> map_of cmds (prefix @ sprintf_d j) \<noteq> None}
      \<subset> {j. i \<le> j \<and> map_of cmds (prefix @ sprintf_d j) \<noteq> None}"
    by blast
  then have "card {j. Suc i \<le> j \<and> map_of cmds (prefix @ sprintf_d j) \<noteq> None}
      < card {j. i \<le> j \<and> map_of cmds (prefix @ sprintf_d j) \<noteq> None}"
    by (intro psubset_card_mono finite_taken_names)
  then show "((cmds, prefix, Suc i), (cmds, prefix, i)) \<in> measure (\<lambda>(cmds, prefix, i).
    card {j. i \<le> j \<and> map_of cmds (prefix @ sprintf_d j) \<noteq> None})"
    by simp
qed

declare unique_name_from.simps [simp del]

definition unique_name :: "interp \<Rightarrow> string \<Rightarrow> string" where
  "unique_name interp prefix = unique_name_from (commands interp) prefix 0"

text \<open>
  \<open>get_entry\<close> (\<open>get_object\<close> with the type \<open>entry\<close> and the procedure
  \<open>entry_obj_cmd\<close>): the client data of the command of that name, when it is an entry
  object.
\<close>

definition get_entry :: "interp \<Rightarrow> string \<Rightarrow> reg_error + reg_entry" where
  "get_entry interp name =
     (case map_of (commands interp) name of
        Some (Entry_obj entry) \<Rightarrow> Inr entry
      | _ \<Rightarrow> Inl \<lparr>code = ''registry::not-found'',
                   description = Static (''could not find entry '' @ [CHR 0x22] @ name
                     @ [CHR 0x22])\<rparr>)"

text \<open>
  \<open>set_entry\<close> (\<open>set_object\<close>): refused when an entry object of that name exists;
  otherwise \<open>Tcl_CreateObjCommand\<close> binds the name, replacing any command it had. (When
  no command has the name, \<open>set_object\<close> compares a field \<open>Tcl_GetCommandInfo\<close> did
  not fill; the model takes that comparison to fail.)
\<close>

definition set_entry :: "interp \<Rightarrow> string \<Rightarrow> reg_entry \<Rightarrow> reg_error + interp" where
  "set_entry interp name entry =
     (case map_of (commands interp) name of
        Some (Entry_obj _) \<Rightarrow>
          Inl \<lparr>code = ''registry::duplicate-object'',
               description = Static (''entry named '' @ [CHR 0x22] @ name @ [CHR 0x22]
                 @ '' already exists, cannot create'')\<rparr>
      | _ \<Rightarrow> Inr (interp\<lparr>commands :=
                 (name, Entry_obj entry) # filter (\<lambda>c. fst c \<noteq> name) (commands interp)\<rparr>))"

definition Tcl_DeleteCommand :: "interp \<Rightarrow> string \<Rightarrow> interp" where
  "Tcl_DeleteCommand interp name =
     interp\<lparr>commands := filter (\<lambda>c. fst c \<noteq> name) (commands interp)\<rparr>"

text \<open>
  \<open>Tcl_GetIndexFromObj\<close> without \<open>TCL_EXACT\<close>: the index of the first table entry equal
  to the key, or else of the only entry the non-empty key is a prefix of.
\<close>

definition Tcl_GetIndexFromObj :: "string list \<Rightarrow> string \<Rightarrow> nat option" where
  "Tcl_GetIndexFromObj table key =
     (case filter (\<lambda>i. table ! i = key) [0 ..< length table] of
        i # _ \<Rightarrow> Some i
      | [] \<Rightarrow>
          (case filter (\<lambda>i. take (length key) (table ! i) = key) [0 ..< length table] of
             [i] \<Rightarrow> if key = [] then None else Some i
           | _ \<Rightarrow> None))"

definition entry_props :: "string list" where
  "entry_props = [''name'', ''portfile'', ''url'', ''location'', ''epoch'', ''version'',
     ''revision'', ''variants'', ''date'', ''state'']"

section \<open>Searching (centry.c, \<open>reg_entry_search\<close>)\<close>

text \<open>
  \<open>reg_strcat(&dst, &dst_len, &dst_space, src)\<close> on a buffer of \<open>dst_space\<close> bytes
  that holds a string of \<open>dst_len\<close> bytes: when \<open>dst_len + src_len >= dst_space\<close> the
  buffer is replaced by one of twice the space, once; then \<open>src_len + 1\<close> bytes are
  copied to offset \<open>dst_len\<close>. \<open>None\<close> is the copy that runs past the end of the buffer.
\<close>

definition reg_strcat :: "nat \<times> nat \<Rightarrow> nat \<Rightarrow> (nat \<times> nat) option" where
  "reg_strcat buf src_len =
     (case buf of
        (dst_len, dst_space) \<Rightarrow>
          if dst_len + src_len \<ge> dst_space
          then (if dst_len + src_len + 1 \<le> 2 * dst_space
                then Some (dst_len + src_len, 2 * dst_space) else None)
          else Some (dst_len + src_len, dst_space))"

fun reg_strcat_all :: "nat \<times> nat \<Rightarrow> string list \<Rightarrow> (nat \<times> nat) option" where
  "reg_strcat_all buf [] = Some buf"
| "reg_strcat_all buf (src # srcs) =
     (case reg_strcat buf (length src) of
        None \<Rightarrow> None
      | Some buf' \<Rightarrow> reg_strcat_all buf' srcs)"

text \<open>
  \<open>sqlite3_mprintf("%s%s%s'%q'", kwd, keys[i], op, vals[i])\<close> for each key, with the
  operator \<open>=\<close> of strategy 0: \<open>%q\<close> doubles every single quote, so the literal denotes
  the value itself.
\<close>

definition sql_quote :: "string \<Rightarrow> string" where
  "sql_quote v = concat (map (\<lambda>c. if c = CHR 0x27 then [c, c] else [c]) v)"

fun search_conditions :: "string \<Rightarrow> string list \<Rightarrow> string list \<Rightarrow> string list" where
  "search_conditions kwd (k # ks) (v # vs) =
     (kwd @ k @ ''='' @ [CHR 0x27] @ sql_quote v @ [CHR 0x27]) # search_conditions '' AND '' ks vs"
| "search_conditions kwd _ _ = []"

text \<open>
  The column of \<open>registry.ports\<close> a key names, with its collation, or \<open>None\<close> when the
  key is not one of the ten declared columns (the statement then fails to prepare). Keys
  that are not plain column names (the source asks for valid keys) are not modelled
  beyond that.
\<close>

datatype collation = BINARY | VERSION

definition ports_column :: "string \<Rightarrow> (collation \<times> (ports_row \<Rightarrow> string option)) option" where
  "ports_column key =
     (if key = ''name'' then Some (BINARY, p_name)
      else if key = ''portfile'' then Some (BINARY, p_portfile)
      else if key = ''url'' then Some (BINARY, p_url)
      else if key = ''location'' then Some (BINARY, p_location)
      else if key = ''epoch'' then Some (BINARY, p_epoch)
      else if key = ''version'' then Some (VERSION, p_version)
      else if key = ''revision'' then Some (VERSION, p_revision)
      else if key = ''variants'' then Some (BINARY, p_variants)
      else if key = ''state'' then Some (BINARY, p_state)
      else if key = ''date'' then Some (BINARY, p_date)
      else None)"

text \<open>
  \<open>reg_entry_search\<close> with \<open>reg_all_objects\<close>, \<open>reg_listcat\<close> and \<open>reg_stmt_to_entry\<close>:
  the entries of the rows that meet every condition, in table order (SQLite's order
  depends on the index it picks), or the error with which \<open>-1\<close> is returned. The query
  is built in a buffer of 33 bytes with \<open>query_space\<close> 32. The outer \<open>None\<close> stands for
  what the model does not determine: the strategies 1 and 2, whose \<open>GLOB\<close> and
  \<open>REGEXP\<close> matching is not modelled; a query that \<open>reg_strcat\<close> writes past the end
  of its buffer; a condition on \<open>version\<close> or \<open>revision\<close> in a table that has rows,
  where the comparison goes through \<open>sql_version\<close>, which reads the stored text past
  its end; and more than ten rows found: the result array starts with room for ten, and
  when it is full \<open>reg_listcat\<close> copies \<open>*dst_len\<close> bytes, not pointers, into the new
  array, so most of the first ten entries are then uninitialised pointers. In the
  remaining case every condition is on a \<open>BINARY\<close> column, or the table is empty.
\<close>

definition reg_entry_search ::
  "sqlite3 \<Rightarrow> string list \<Rightarrow> string list \<Rightarrow> int \<Rightarrow> (reg_error + reg_entry list) option" where
  "reg_entry_search db keys vals strategy =
     (if strategy = 0 then
        (case reg_strcat_all (0, 32)
                (''SELECT rowid FROM registry.ports'' # search_conditions '' WHERE '' keys vals) of
           None \<Rightarrow> None
         | Some buf \<Rightarrow>
             (case those (map ports_column (take (length vals) keys)) of
                None \<Rightarrow>
                  Some (Inl (reg_sqlite_error (Some (''SELECT rowid FROM registry.ports''
                          @ concat (search_conditions '' WHERE '' keys vals)))))
              | Some columns \<Rightarrow>
                  if list_ex (\<lambda>c. fst c = VERSION) columns \<and> ports db \<noteq> [] then None
                  else if length (filter (\<lambda>r. list_all (\<lambda>(c, v). eq_binary (snd c r) (Some v))
                                                 (zip columns vals)) (ports db)) > 10
                  then None
                  else Some (Inr (map (\<lambda>r. \<lparr>rowid = p_rowid r\<rparr>)
                          (filter (\<lambda>r. list_all (\<lambda>(c, v). eq_binary (snd c r) (Some v))
                                          (zip columns vals)) (ports db))))))
      else if strategy = 1 \<or> strategy = 2 then None
      else Some (Inl \<lparr>code = ''registry::invalid-strategy'',
                       description = Static ''invalid matching strategy specified''\<rparr>))"

section \<open>The entry commands (src/registry2.0/entry.c)\<close>

text \<open>
  The entry commands work on the connection of the interpreter. What its pages hold
  after a stored key is not part of the state the interpreter is modelled with: the
  commands pass an unspecified value for the parameter \<open>rest\<close>, so nothing that depends
  on these bytes can be derived for a command.
\<close>

definition session_rest :: "ports_index \<Rightarrow> ports_row \<Rightarrow> string" where
  "session_rest ix row = undefined ix row"

text \<open>\<open>registry::entry create name version revision variants epoch\<close>\<close>

definition entry_create :: "interp \<Rightarrow> string list \<Rightarrow> tcl_code \<times> tcl_obj \<times> interp" where
  "entry_create interp objv =
     (if length objv \<noteq> 7
      then (TCL_ERROR, WrongNumArgs ''name version revision variants epoch'', interp)
      else case registry_db interp True of
        None \<Rightarrow> (TCL_ERROR, StringObj ''registry is not open'', interp)
      | Some db \<Rightarrow>
          (case reg_entry_create session_rest db
                  (objv ! 2) (objv ! 3) (objv ! 4) (objv ! 5) (objv ! 6) of
             (Inr entry, db') \<Rightarrow>
               (case set_entry (interp\<lparr>assoc_db := db'\<rparr>)
                       (unique_name (interp\<lparr>assoc_db := db'\<rparr>) ''registry::entry'') entry of
                  Inr interp' \<Rightarrow>
                    (TCL_OK,
                     StringObj (unique_name (interp\<lparr>assoc_db := db'\<rparr>) ''registry::entry''),
                     interp')
                | Inl error \<Rightarrow>
                    (TCL_ERROR, RegistryFailed error,
                     interp\<lparr>assoc_db :=
                       snd (snd (reg_entry_delete session_rest db' [entry]))\<rparr>))
           | (Inl error, db') \<Rightarrow> (TCL_ERROR, RegistryFailed error, interp\<lparr>assoc_db := db'\<rparr>)))"

text \<open>
  \<open>INSERT INTO entry_procs (entry_id, proc) VALUES (?,?)\<close> under \<open>entry_id UNIQUE\<close> and
  \<open>proc UNIQUE\<close>; \<open>entry_to_obj\<close> does not look at its outcome.
\<close>

definition insert_entry_proc :: "sqlite3 \<Rightarrow> int \<Rightarrow> string \<Rightarrow> sqlite3" where
  "insert_entry_proc db rid name =
     (if list_ex (\<lambda>r. fst r = rid \<or> snd r = name) (entry_procs db) then db
      else db\<lparr>entry_procs := entry_procs db @ [(rid, name)]\<rparr>)"

text \<open>
  \<open>entry_to_obj\<close>: the procedure recorded for the entry in \<open>entry_procs\<close>
  (\<open>SELECT proc FROM entry_procs WHERE entry_id=?\<close>), or a new one, which is then
  recorded.
\<close>

definition entry_to_obj :: "interp \<Rightarrow> reg_entry \<Rightarrow> (reg_error + string) \<times> interp" where
  "entry_to_obj interp entry =
     (case map_of (entry_procs (assoc_db interp)) (rowid entry) of
        Some name \<Rightarrow> (Inr name, interp)
      | None \<Rightarrow>
          (case set_entry interp (unique_name interp ''registry::entry'') entry of
             Inr interp' \<Rightarrow>
               (Inr (unique_name interp ''registry::entry''),
                interp'\<lparr>assoc_db := insert_entry_proc (assoc_db interp') (rowid entry)
                                       (unique_name interp ''registry::entry'')\<rparr>)
           | Inl error \<Rightarrow> (Inl error, interp)))"

text \<open>\<open>recast(interp, entry_to_obj, NULL, &objs, entries, entry_count, &error)\<close>\<close>

fun recast_entry_to_obj :: "interp \<Rightarrow> reg_entry list \<Rightarrow> (reg_error + string list) \<times> interp" where
  "recast_entry_to_obj interp [] = (Inr [], interp)"
| "recast_entry_to_obj interp (e # es) =
     (case entry_to_obj interp e of
        (Inl error, interp') \<Rightarrow> (Inl error, interp')
      | (Inr obj, interp') \<Rightarrow>
          (case recast_entry_to_obj interp' es of
             (Inl error, interp'') \<Rightarrow> (Inl error, interp'')
           | (Inr objs, interp'') \<Rightarrow> (Inr (obj # objs), interp'')))"

text \<open>
  \<open>entry_search\<close>, lines 305 to 311: the first key, at \<open>objv[2]\<close>, \<open>objv[4]\<close>, ..., that
  \<open>Tcl_GetIndexFromObj\<close> refuses.
\<close>

fun bad_search_key :: "string list \<Rightarrow> string option" where
  "bad_search_key (k # v # rest) =
     (if Tcl_GetIndexFromObj entry_props k = None then Some k else bad_search_key rest)"
| "bad_search_key _ = None"

text \<open>
  Lines 312 to 317: \<open>keys\<close> and \<open>vals\<close> come from \<open>malloc\<close>, so every slot starts
  uninitialised (\<open>None\<close>); the loop \<open>for (i=0; i<key_count; i+=2)\<close> assigns the slots
  \<open>i\<close> from \<open>objv[2*i+2]\<close> and \<open>objv[2*i+3]\<close>.
\<close>

function search_args ::
  "string list \<Rightarrow> nat \<Rightarrow> nat \<Rightarrow> string option list \<times> string option list
     \<Rightarrow> string option list \<times> string option list" where
  "search_args objv key_count i (keys, vals) =
     (if i < key_count
      then search_args objv key_count (i + 2)
             (keys[i := Some (objv ! (2 * i + 2))], vals[i := Some (objv ! (2 * i + 3))])
      else (keys, vals))"
  by pat_completeness auto
termination
  by (relation "measure (\<lambda>(objv, key_count, i, kv). key_count - i)") auto

declare search_args.simps [simp del]

text \<open>
  \<open>registry::entry search ?key value ...?\<close>. \<open>None\<close> is undefined behaviour: a slot of
  \<open>keys\<close> or \<open>vals\<close> that was never assigned is read by \<open>reg_entry_search\<close>, or the
  objects of a failed \<open>recast\<close>, whose result is not checked, are read.
\<close>

definition entry_search :: "interp \<Rightarrow> string list \<Rightarrow> (tcl_code \<times> tcl_obj \<times> interp) option" where
  "entry_search interp objv =
     (if length objv mod 2 = 1
      then Some (TCL_ERROR, WrongNumArgs ''search ?key value ...?'', interp)
      else case registry_db interp True of
        None \<Rightarrow> Some (TCL_ERROR, StringObj ''registry is not open'', interp)
      | Some db \<Rightarrow>
          (case bad_search_key (drop 2 objv) of
             Some k \<Rightarrow> Some (TCL_ERROR, BadIndex ''search key'' k, interp)
           | None \<Rightarrow>
               (case search_args objv (length objv div 2 - 1) 0
                       (replicate (length objv div 2 - 1) None,
                        replicate (length objv div 2 - 1) None) of
                  (keys, vals) \<Rightarrow>
                    (case (those keys, those vals) of
                       (Some ks, Some vs) \<Rightarrow>
                         (case reg_entry_search db ks vs 0 of
                            Some (Inr entries) \<Rightarrow>
                              (case recast_entry_to_obj interp entries of
                                 (Inr objs, interp') \<Rightarrow> Some (TCL_OK, ListObj objs, interp')
                               | (Inl error, interp') \<Rightarrow> None)
                          | Some (Inl error) \<Rightarrow> Some (TCL_ERROR, RegistryFailed error, interp)
                          | None \<Rightarrow> None)
                     | _ \<Rightarrow> None))))"

text \<open>\<open>registry::entry close ?entry ...?\<close>: the loop over \<open>objv[2]\<close> onwards.\<close>

fun entry_close_from :: "interp \<Rightarrow> string list \<Rightarrow> tcl_code \<times> tcl_obj \<times> interp" where
  "entry_close_from interp [] = (TCL_OK, StringObj [], interp)"
| "entry_close_from interp (proc # rest) =
     (case get_entry interp proc of
        Inl error \<Rightarrow> (TCL_ERROR, RegistryFailed error, interp)
      | Inr entry \<Rightarrow> entry_close_from (Tcl_DeleteCommand interp proc) rest)"

definition entry_close :: "interp \<Rightarrow> string list \<Rightarrow> tcl_code \<times> tcl_obj \<times> interp" where
  "entry_close interp objv = entry_close_from interp (drop 2 objv)"

section \<open>Properties of the version comparator\<close>

declare vercomp_loop.simps [simp del]

subsection \<open>Facts about one iteration\<close>

lemma digit_not_alpha: "digit_at p \<Longrightarrow> \<not> alpha_at p"
  by (cases p) (auto simp: digit_at_def alpha_at_def isdigit_def isalpha_def)

lemma digit_at_nonempty: "digit_at (skip_nonalnum p) \<Longrightarrow> p \<noteq> []"
  by (auto simp: digit_at_def skip_nonalnum_def)

lemma compare_runs_same_length:
  "length xs = length ys \<Longrightarrow> (compare_runs xs ys = None) = (xs = ys)"
  by (induction xs ys rule: compare_runs.induct) auto

lemma compare_runs_Some:
  "compare_runs xs ys = Some d \<Longrightarrow>
     \<exists>i. i < length xs \<and> i < length ys \<and> take i xs = take i ys \<and> xs ! i \<noteq> ys ! i
       \<and> d = of_char (xs ! i) - of_char (ys ! i)"
proof (induction xs ys rule: compare_runs.induct)
  case (1 x xs y ys)
  show ?case
  proof (cases "x = y")
    case True
    with 1 obtain i where "i < length xs" "i < length ys" "take i xs = take i ys"
      "xs ! i \<noteq> ys ! i" "d = of_char (xs ! i) - of_char (ys ! i)" by auto
    with True show ?thesis by (intro exI [of _ "Suc i"]) simp
  next
    case False
    with 1 show ?thesis by (intro exI [of _ 0]) simp
  qed
qed simp_all

lemma numeric_step:
  assumes "digit_at (skip_nonalnum ptrA)" and "digit_at (skip_nonalnum ptrB)"
  shows "vercomp_loop ptrA ptrB =
     (if length (skip_zeros (takeWhile isdigit (skip_nonalnum ptrA)))
          > length (skip_zeros (takeWhile isdigit (skip_nonalnum ptrB))) then 1
      else if length (skip_zeros (takeWhile isdigit (skip_nonalnum ptrB)))
          > length (skip_zeros (takeWhile isdigit (skip_nonalnum ptrA))) then - 1
      else case compare_runs (skip_zeros (takeWhile isdigit (skip_nonalnum ptrA)))
                             (skip_zeros (takeWhile isdigit (skip_nonalnum ptrB))) of
             Some d \<Rightarrow> d
           | None \<Rightarrow> vercomp_loop (dropWhile isdigit (skip_nonalnum ptrA))
                                  (dropWhile isdigit (skip_nonalnum ptrB)))"
  using assms digit_not_alpha [OF assms(1)] digit_not_alpha [OF assms(2)]
    digit_at_nonempty [OF assms(1)] digit_at_nonempty [OF assms(2)]
  by (subst vercomp_loop.simps) simp

text \<open>
  Claim C1. When, after the separators are skipped, both strings stand at a digit, let
  \<open>segA\<close> and \<open>segB\<close> be the two digit runs with their leading \<open>0\<close> characters removed.
  The longer of the two decides (greater for the longer one) whatever the digits are; when
  they have the same length and differ, the result is the difference of the bytes at the
  first position where they differ; when they are the same, the comparison goes on after
  the two runs. In particular \<open>rpm_vercomp "7.1.000" "7.1.002"\<close> and
  \<open>rpm_vercomp "1.2.3" "1.2.10"\<close> are negative (less).
\<close>

theorem numeric_segments_by_length_then_bytes:
  assumes "digit_at (skip_nonalnum ptrA)" and "digit_at (skip_nonalnum ptrB)"
    and "segA = skip_zeros (takeWhile isdigit (skip_nonalnum ptrA))"
    and "segB = skip_zeros (takeWhile isdigit (skip_nonalnum ptrB))"
  shows "(length segA > length segB \<longrightarrow> vercomp_loop ptrA ptrB = 1)
    \<and> (length segA < length segB \<longrightarrow> vercomp_loop ptrA ptrB = - 1)
    \<and> (length segA = length segB \<and> segA \<noteq> segB \<longrightarrow>
          (\<exists>i < length segA. take i segA = take i segB \<and> segA ! i \<noteq> segB ! i
             \<and> vercomp_loop ptrA ptrB = of_char (segA ! i) - of_char (segB ! i)))
    \<and> (segA = segB \<longrightarrow> vercomp_loop ptrA ptrB =
          vercomp_loop (dropWhile isdigit (skip_nonalnum ptrA))
                       (dropWhile isdigit (skip_nonalnum ptrB)))
    \<and> rpm_vercomp ''7.1.000'' ''7.1.002'' < 0
    \<and> rpm_vercomp ''1.2.3'' ''1.2.10'' < 0"
proof -
  note step = numeric_step [OF assms(1,2), folded assms(3,4)]
  have longer: "length segA > length segB \<longrightarrow> vercomp_loop ptrA ptrB = 1"
    by (simp add: step)
  have shorter: "length segA < length segB \<longrightarrow> vercomp_loop ptrA ptrB = - 1"
    by (simp add: step)
  have differ: "length segA = length segB \<and> segA \<noteq> segB \<longrightarrow>
          (\<exists>i < length segA. take i segA = take i segB \<and> segA ! i \<noteq> segB ! i
             \<and> vercomp_loop ptrA ptrB = of_char (segA ! i) - of_char (segB ! i))"
  proof
    assume a: "length segA = length segB \<and> segA \<noteq> segB"
    then obtain d where d: "compare_runs segA segB = Some d"
      using compare_runs_same_length [of segA segB] by auto
    from compare_runs_Some [OF d] a d
    show "\<exists>i < length segA. take i segA = take i segB \<and> segA ! i \<noteq> segB ! i
             \<and> vercomp_loop ptrA ptrB = of_char (segA ! i) - of_char (segB ! i)"
      by (auto simp: step)
  qed
  have same: "segA = segB \<longrightarrow> vercomp_loop ptrA ptrB =
          vercomp_loop (dropWhile isdigit (skip_nonalnum ptrA))
                       (dropWhile isdigit (skip_nonalnum ptrB))"
  proof
    assume a: "segA = segB"
    then have "compare_runs segA segB = None"
      using compare_runs_same_length [of segA segB] by simp
    with a show "vercomp_loop ptrA ptrB =
          vercomp_loop (dropWhile isdigit (skip_nonalnum ptrA))
                       (dropWhile isdigit (skip_nonalnum ptrB))"
      by (simp add: step)
  qed
  have ex1: "rpm_vercomp ''7.1.000'' ''7.1.002'' < 0" by code_simp
  have ex2: "rpm_vercomp ''1.2.3'' ''1.2.10'' < 0" by code_simp
  from longer shorter differ same ex1 ex2 show ?thesis by blast
qed

text \<open>
  The theorem at four pairs of positions: a longer run with smaller digits (\<open>10\<close> against
  \<open>9\<close>), a shorter run once its zeros are gone (\<open>0009\<close> against \<open>10\<close>), runs of one
  length (\<open>12\<close> against \<open>13\<close>, first difference at index 1), and equal runs (\<open>007\<close>
  against \<open>7\<close>), after which the rest is compared.
\<close>

theorem numeric_segments_by_length_then_bytes_witness:
  "vercomp_loop ''.10a'' ''9'' = 1
   \<and> vercomp_loop ''0009'' ''10'' = - 1
   \<and> (\<exists>i < length ''12''. take i ''12'' = take i ''13'' \<and> ''12'' ! i \<noteq> ''13'' ! i
         \<and> vercomp_loop ''12'' ''13'' = of_char (''12'' ! i) - of_char (''13'' ! i))
   \<and> vercomp_loop ''007.b'' ''7.a'' = vercomp_loop ''.b'' ''.a''"
proof -
  have d: "digit_at (skip_nonalnum ''.10a'')" "digit_at (skip_nonalnum ''9'')"
    "digit_at (skip_nonalnum ''0009'')" "digit_at (skip_nonalnum ''10'')"
    "digit_at (skip_nonalnum ''12'')" "digit_at (skip_nonalnum ''13'')"
    "digit_at (skip_nonalnum ''007.b'')" "digit_at (skip_nonalnum ''7.a'')"
    by code_simp+
  have s: "''10'' = skip_zeros (takeWhile isdigit (skip_nonalnum ''.10a''))"
    "''9'' = skip_zeros (takeWhile isdigit (skip_nonalnum ''9''))"
    "''9'' = skip_zeros (takeWhile isdigit (skip_nonalnum ''0009''))"
    "''10'' = skip_zeros (takeWhile isdigit (skip_nonalnum ''10''))"
    "''12'' = skip_zeros (takeWhile isdigit (skip_nonalnum ''12''))"
    "''13'' = skip_zeros (takeWhile isdigit (skip_nonalnum ''13''))"
    "''7'' = skip_zeros (takeWhile isdigit (skip_nonalnum ''007.b''))"
    "''7'' = skip_zeros (takeWhile isdigit (skip_nonalnum ''7.a''))"
    by code_simp+
  have r: "dropWhile isdigit (skip_nonalnum ''007.b'') = ''.b''"
    "dropWhile isdigit (skip_nonalnum ''7.a'') = ''.a''"
    by code_simp+
  have a: "vercomp_loop ''.10a'' ''9'' = 1"
    using numeric_segments_by_length_then_bytes [OF d(1) d(2) s(1) s(2)] by simp
  have b: "vercomp_loop ''0009'' ''10'' = - 1"
    using numeric_segments_by_length_then_bytes [OF d(3) d(4) s(3) s(4)] by simp
  have c: "\<exists>i < length ''12''. take i ''12'' = take i ''13'' \<and> ''12'' ! i \<noteq> ''13'' ! i
         \<and> vercomp_loop ''12'' ''13'' = of_char (''12'' ! i) - of_char (''13'' ! i)"
    using numeric_segments_by_length_then_bytes [OF d(5) d(6) s(5) s(6)] by simp
  have e: "vercomp_loop ''007.b'' ''7.a'' = vercomp_loop ''.b'' ''.a''"
    using numeric_segments_by_length_then_bytes [OF d(7) d(8) s(7) s(8)] r by simp
  from a b c e show ?thesis by blast
qed

text \<open>
  Claim C2 (antisymmetry, and \<open>compare(a, a) = equal\<close>). The code is not antisymmetric:
  a trailing alphabetic run against a string that ends in separators is skipped without a
  decision, so \<open>rpm_vercomp "a" "."\<close> is 0 (equal) while \<open>rpm_vercomp "." "a"\<close> is
  \<open>-1\<close>; in the same way \<open>"0"\<close> is greater than \<open>"."\<close> while \<open>"."\<close> equals \<open>"0"\<close>.
\<close>

theorem rpm_vercomp_not_antisymmetric:
  "rpm_vercomp ''a'' ''.'' = 0 \<and> rpm_vercomp ''.'' ''a'' = - 1
   \<and> rpm_vercomp ''1.0.a'' ''1.0.'' = 0 \<and> rpm_vercomp ''1.0.'' ''1.0.a'' = - 1
   \<and> rpm_vercomp ''0'' ''.'' = 1 \<and> rpm_vercomp ''.'' ''0'' = 0"
  by code_simp

text \<open>
  Claim C8 (a proper prefix among alphabetic segments). The code compares the two runs
  only up to the end of the shorter one and then steps over both, so \<open>"ab"\<close> against
  \<open>"abc"\<close> is 0 (equal) in both directions, not less and greater.
\<close>

theorem alphabetic_prefix_compares_equal:
  "rpm_vercomp ''ab'' ''abc'' = 0 \<and> rpm_vercomp ''abc'' ''ab'' = 0"
  by code_simp

section \<open>Properties of the entry store and the file map\<close>

subsection \<open>Facts about the statements\<close>

lemma insert_file_owned: "pth \<in> f_path ` set (files db) \<Longrightarrow> insert_file db pid pth = None"
  by (auto simp: insert_file_def list_ex_iff)

lemma insert_file_free:
  "pth \<notin> f_path ` set (files db) \<Longrightarrow>
     insert_file db pid pth =
       Some (db\<lparr>files := files db @ [\<lparr>f_port_id = pid, f_path = pth, f_mtime = None\<rparr>]\<rparr>)"
  by (auto simp: insert_file_def list_ex_iff)

lemma select_files_after_insert:
  "select_files (db\<lparr>files := files db @ map (\<lambda>q. \<lparr>f_port_id = pid, f_path = q, f_mtime = None\<rparr>) pre\<rparr>) pid
     = select_files db pid @ pre"
  by (simp add: select_files_def filter_map o_def)

subsection \<open>The loop of map\<close>

lemma reg_entry_map_from_stops:
  assumes "distinct pre" and "set pre \<inter> f_path ` set (files db) = {}"
    and "p \<in> f_path ` set (files db) \<union> set pre"
  shows "reg_entry_map_from db entry (pre @ p # post) i =
     (i + int (length pre),
      Some \<lparr>code = ''registry::already-owned'',
            description = Static ''mapped file is already owned by another entry''\<rparr>,
      db\<lparr>files := files db
           @ map (\<lambda>q. \<lparr>f_port_id = rowid entry, f_path = q, f_mtime = None\<rparr>) pre\<rparr>)"
  using assms
proof (induction pre arbitrary: db i)
  case Nil
  then show ?case by (simp add: insert_file_owned)
next
  case (Cons q pre)
  let ?db = "db\<lparr>files := files db @ [\<lparr>f_port_id = rowid entry, f_path = q, f_mtime = None\<rparr>]\<rparr>"
  from Cons.prems have q: "q \<notin> f_path ` set (files db)" by auto
  have "reg_entry_map_from ?db entry (pre @ p # post) (i + 1) =
     (i + 1 + int (length pre),
      Some \<lparr>code = ''registry::already-owned'',
            description = Static ''mapped file is already owned by another entry''\<rparr>,
      ?db\<lparr>files := files ?db
           @ map (\<lambda>q. \<lparr>f_port_id = rowid entry, f_path = q, f_mtime = None\<rparr>) pre\<rparr>)"
  proof (rule Cons.IH)
    show "distinct pre" using Cons.prems by simp
    show "set pre \<inter> f_path ` set (files ?db) = {}" using Cons.prems by auto
    show "p \<in> f_path ` set (files ?db) \<union> set pre" using Cons.prems by auto
  qed
  with q show ?case by (simp add: insert_file_free)
qed

lemma entry_obj_map_from_stops:
  assumes "distinct pre" and "set pre \<inter> f_path ` set (files db) = {}"
    and "p \<in> f_path ` set (files db) \<union> set pre"
  shows "entry_obj_map_from db pid (pre @ p # post) =
     (TCL_ERROR, SqliteResult (Some ''INSERT INTO files (port_id, path) VALUES (?, ?)''),
      db\<lparr>files := files db @ map (\<lambda>q. \<lparr>f_port_id = pid, f_path = q, f_mtime = None\<rparr>) pre\<rparr>)"
  using assms
proof (induction pre arbitrary: db)
  case Nil
  then show ?case by (simp add: insert_file_owned)
next
  case (Cons q pre)
  let ?db = "db\<lparr>files := files db @ [\<lparr>f_port_id = pid, f_path = q, f_mtime = None\<rparr>]\<rparr>"
  from Cons.prems have q: "q \<notin> f_path ` set (files db)" by auto
  have "entry_obj_map_from ?db pid (pre @ p # post) =
     (TCL_ERROR, SqliteResult (Some ''INSERT INTO files (port_id, path) VALUES (?, ?)''),
      ?db\<lparr>files := files ?db @ map (\<lambda>q. \<lparr>f_port_id = pid, f_path = q, f_mtime = None\<rparr>) pre\<rparr>)"
  proof (rule Cons.IH)
    show "distinct pre" using Cons.prems by simp
    show "set pre \<inter> f_path ` set (files ?db) = {}" using Cons.prems by auto
    show "p \<in> f_path ` set (files ?db) \<union> set pre" using Cons.prems by auto
  qed
  with q show ?case by (simp add: insert_file_free)
qed

text \<open>
  Claim C3, amended. When a path of the batch is already in the files table (owned by any
  entry, the mapping one included) or repeats an earlier path of the batch, the call stops
  at the first such path \<open>p\<close>: \<open>reg_entry_map\<close> returns the index of \<open>p\<close> with the
  error \<open>registry::already-owned\<close>, \<open>entry_obj_map\<close> returns \<open>TCL_ERROR\<close> with SQLite's
  message. No statement undoes the earlier inserts: the files table afterwards is the one
  before the call with a row for each path listed before \<open>p\<close>, so the paths the entry
  owns (\<open>SELECT path FROM files WHERE port_id=?\<close>) are those it owned followed by the
  paths before \<open>p\<close>; \<open>p\<close> and the paths after it are not bound by the call.
\<close>

theorem map_keeps_paths_before_first_owned:
  assumes "distinct pre" and "set pre \<inter> f_path ` set (files db) = {}"
    and "p \<in> f_path ` set (files db) \<union> set pre"
  shows "reg_entry_map db entry (pre @ p # post) =
      (int (length pre),
       Some \<lparr>code = ''registry::already-owned'',
             description = Static ''mapped file is already owned by another entry''\<rparr>,
       db\<lparr>files := files db
            @ map (\<lambda>q. \<lparr>f_port_id = rowid entry, f_path = q, f_mtime = None\<rparr>) pre\<rparr>)
    \<and> select_files (snd (snd (reg_entry_map db entry (pre @ p # post)))) (rowid entry)
        = select_files db (rowid entry) @ pre
    \<and> entry_obj_map db entry (proc # cmd # pre @ p # post) =
      (TCL_ERROR, SqliteResult (Some ''INSERT INTO files (port_id, path) VALUES (?, ?)''),
       db\<lparr>files := files db
            @ map (\<lambda>q. \<lparr>f_port_id = c_int (rowid entry), f_path = q, f_mtime = None\<rparr>) pre\<rparr>)"
proof -
  have a: "reg_entry_map db entry (pre @ p # post) =
      (int (length pre),
       Some \<lparr>code = ''registry::already-owned'',
             description = Static ''mapped file is already owned by another entry''\<rparr>,
       db\<lparr>files := files db
            @ map (\<lambda>q. \<lparr>f_port_id = rowid entry, f_path = q, f_mtime = None\<rparr>) pre\<rparr>)"
    using reg_entry_map_from_stops [OF assms, of entry post 0] by (simp add: reg_entry_map_def)
  have b: "select_files (snd (snd (reg_entry_map db entry (pre @ p # post)))) (rowid entry)
        = select_files db (rowid entry) @ pre"
    by (simp add: a select_files_after_insert)
  have c: "entry_obj_map db entry (proc # cmd # pre @ p # post) =
      (TCL_ERROR, SqliteResult (Some ''INSERT INTO files (port_id, path) VALUES (?, ?)''),
       db\<lparr>files := files db
            @ map (\<lambda>q. \<lparr>f_port_id = c_int (rowid entry), f_path = q, f_mtime = None\<rparr>) pre\<rparr>)"
    using entry_obj_map_from_stops [OF assms, of "c_int (rowid entry)" post]
    by (simp add: entry_obj_map_def)
  from a b c show ?thesis by blast
qed

theorem map_keeps_paths_before_first_owned_witness:
  "reg_entry_map
      \<lparr>ports = [], files = [\<lparr>f_port_id = 2, f_path = ''/usr/bin/x'', f_mtime = None\<rparr>],
        entry_procs = []\<rparr>
      \<lparr>rowid = 1\<rparr> [''/usr/bin/y'', ''/usr/bin/x'', ''/usr/bin/z'']
    = (1,
       Some \<lparr>code = ''registry::already-owned'',
             description = Static ''mapped file is already owned by another entry''\<rparr>,
       \<lparr>ports = [], files = [\<lparr>f_port_id = 2, f_path = ''/usr/bin/x'', f_mtime = None\<rparr>,
                             \<lparr>f_port_id = 1, f_path = ''/usr/bin/y'', f_mtime = None\<rparr>],
         entry_procs = []\<rparr>)
   \<and> select_files (snd (snd (reg_entry_map
      \<lparr>ports = [], files = [\<lparr>f_port_id = 2, f_path = ''/usr/bin/x'', f_mtime = None\<rparr>],
        entry_procs = []\<rparr>
      \<lparr>rowid = 1\<rparr> [''/usr/bin/y'', ''/usr/bin/x'', ''/usr/bin/z'']))) 1
    = [''/usr/bin/y'']"
  using map_keeps_paths_before_first_owned
    [of "[''/usr/bin/y'']"
        "\<lparr>ports = [], files = [\<lparr>f_port_id = 2, f_path = ''/usr/bin/x'', f_mtime = None\<rparr>],
          entry_procs = []\<rparr>"
        "''/usr/bin/x''" "\<lparr>rowid = 1\<rparr>" "[''/usr/bin/z'']"]
  by (simp add: select_files_def)

text \<open>
  The claim as stated fails: after the failed call the files table holds a row that binds
  the path listed before the offending one to the mapping entry.
\<close>

theorem map_is_not_all_or_nothing:
  "reg_entry_map
      \<lparr>ports = [], files = [\<lparr>f_port_id = 2, f_path = ''/usr/bin/x'', f_mtime = None\<rparr>],
        entry_procs = []\<rparr>
      \<lparr>rowid = 1\<rparr> [''/usr/bin/y'', ''/usr/bin/x'']
    = (1,
       Some \<lparr>code = ''registry::already-owned'',
             description = Static ''mapped file is already owned by another entry''\<rparr>,
       \<lparr>ports = [], files = [\<lparr>f_port_id = 2, f_path = ''/usr/bin/x'', f_mtime = None\<rparr>,
                             \<lparr>f_port_id = 1, f_path = ''/usr/bin/y'', f_mtime = None\<rparr>],
         entry_procs = []\<rparr>)
   \<and> select_files
      \<lparr>ports = [], files = [\<lparr>f_port_id = 2, f_path = ''/usr/bin/x'', f_mtime = None\<rparr>,
                            \<lparr>f_port_id = 1, f_path = ''/usr/bin/y'', f_mtime = None\<rparr>],
        entry_procs = []\<rparr> 1
    = [''/usr/bin/y'']"
  by (simp add: reg_entry_map_def insert_file_def select_files_def)

text \<open>
  Claim C7 (unmap fails with NotOwnedError naming the path). On the batch
  \<open>["/usr/bin/x", "/not/mapped"]\<close> for an entry that owns the first path only,
  \<open>reg_entry_unmap\<close> removes the first path, stops at the second and returns its index,
  as the claim says; but lines 500 and 501 both assign \<open>errPtr->code\<close>, so the error it
  returns has the message as its code, not \<open>registry::not-owned\<close>, has no description,
  and does not name the path. \<open>entry_obj_unmap\<close> on the same batch fails with a message
  that names the path.
\<close>

theorem unmap_error_is_not_not_owned:
  "reg_entry_unmap
      \<lparr>ports = [], files = [\<lparr>f_port_id = 1, f_path = ''/usr/bin/x'', f_mtime = None\<rparr>],
        entry_procs = []\<rparr>
      \<lparr>rowid = 1\<rparr> [''/usr/bin/x'', ''/not/mapped'']
    = (1, Some \<lparr>code = ''this entry does not own the given file'', description = Unset\<rparr>,
       \<lparr>ports = [], files = [], entry_procs = []\<rparr>)
   \<and> entry_obj_unmap
      \<lparr>ports = [], files = [\<lparr>f_port_id = 1, f_path = ''/usr/bin/x'', f_mtime = None\<rparr>],
        entry_procs = []\<rparr>
      \<lparr>rowid = 1\<rparr> [''registry::entry0'', ''unmap'', ''/usr/bin/x'', ''/not/mapped'']
    = (TCL_ERROR, StringObj ''/not/mapped is not mapped to this entry'',
       \<lparr>ports = [], files = [], entry_procs = []\<rparr>)"
  by (simp add: reg_entry_unmap_def entry_obj_unmap_def delete_file_def c_int_def)

subsection \<open>Facts about create and delete\<close>

lemma files_reg_entry_delete_from:
  "files (snd (snd (reg_entry_delete_from rest db es i))) = files db"
  by (induction es arbitrary: db i) (auto simp: delete_port_def split: option.splits)

text \<open>
  The stored version \<open>7.1.000\<close> of the entry \<open>vim 7.1.000 0 {multibyte +} 0\<close> against
  the text \<open>7.1.000\<close>: \<open>sql_version\<close> reads on into the revision and the variants, and
  answers 1 whatever bytes come after them.
\<close>

lemma sql_version_reads_past_the_stored_text:
  "sql_version (''7.1.000'' @ ''0'' @ ''multibyte +'' @ after) (''7.1.000'' @ [CHR 0x00]) = 1"
  by (simp add: sql_version_def c_string_def rpm_vercomp_def vercomp_loop.simps
      skip_nonalnum_def skip_zeros_def digit_at_def alpha_at_def isdigit_def isalpha_def
      isalnum_def after_loop_def)

text \<open>
  So the key of that entry is not found when the entry is deleted: \<open>reg_entry_delete\<close>
  returns 0 with the error of \<open>reg_sqlite_error\<close> and the row stays.
\<close>

lemma delete_of_created_entry_is_sqlite_error:
  "reg_entry_delete rest
      \<lparr>ports = [\<lparr>p_rowid = 1, p_name = Some ''vim'', p_portfile = None, p_url = None,
          p_location = None, p_epoch = Some ''0'', p_version = Some ''7.1.000'',
          p_revision = Some ''0'', p_variants = Some ''multibyte +'', p_state = None,
          p_date = None\<rparr>],
        files = [\<lparr>f_port_id = 1, f_path = ''/usr/bin/x'', f_mtime = None\<rparr>],
        entry_procs = []\<rparr> [\<lparr>rowid = 1\<rparr>]
    = (0, Some (reg_sqlite_error (Some ''DELETE FROM registry.ports WHERE rowid=?'')),
       \<lparr>ports = [\<lparr>p_rowid = 1, p_name = Some ''vim'', p_portfile = None, p_url = None,
          p_location = None, p_epoch = Some ''0'', p_version = Some ''7.1.000'',
          p_revision = Some ''0'', p_variants = Some ''multibyte +'', p_state = None,
          p_date = None\<rparr>],
        files = [\<lparr>f_port_id = 1, f_path = ''/usr/bin/x'', f_mtime = None\<rparr>],
        entry_procs = []\<rparr>)"
  using sql_version_reads_past_the_stored_text
  by (simp add: reg_entry_delete_def delete_port_def key_found_def stored_version_equal_def
      text_bytes_def)

text \<open>
  Claim C4, amended. \<open>reg_entry_delete\<close> issues \<open>DELETE FROM registry.ports WHERE rowid=?\<close>
  and no statement on the files table. When the delete of an entry succeeds (the count
  returned for the one entry is 1) the entry's row is removed from \<open>ports\<close>; and whatever
  \<open>reg_entry_delete\<close> returns, for any entries, the files table is the one before the
  call, so every row whose \<open>port_id\<close> is a deleted identity is still there.
\<close>

theorem delete_leaves_the_files_table:
  assumes "fst (reg_entry_delete rest db [entry]) = 1"
  shows "reg_entry_delete rest db [entry] =
      (1, None, db\<lparr>ports := filter (\<lambda>r. p_rowid r \<noteq> rowid entry) (ports db)\<rparr>)
    \<and> select_files (snd (snd (reg_entry_delete rest db [entry]))) (rowid entry)
        = select_files db (rowid entry)
    \<and> files (snd (snd (reg_entry_delete rest db entries))) = files db"
proof -
  have a: "reg_entry_delete rest db [entry] =
      (1, None, db\<lparr>ports := filter (\<lambda>r. p_rowid r \<noteq> rowid entry) (ports db)\<rparr>)"
    using assms
    by (auto simp: reg_entry_delete_def delete_port_def split: option.splits if_splits)
  have b: "files (snd (snd (reg_entry_delete rest db es))) = files db" for es
    by (simp add: reg_entry_delete_def files_reg_entry_delete_from)
  have c: "select_files (snd (snd (reg_entry_delete rest db [entry]))) (rowid entry)
        = select_files db (rowid entry)"
    by (simp add: select_files_def b)
  from a b c show ?thesis by simp
qed

theorem delete_leaves_the_files_table_witness:
  "fst (reg_entry_delete (\<lambda>ix r. [])
      \<lparr>ports = [\<lparr>p_rowid = 1, p_name = Some ''vim'', p_portfile = None, p_url = None,
          p_location = None, p_epoch = Some ''0'', p_version = None, p_revision = None,
          p_variants = Some ''multibyte +'', p_state = None, p_date = None\<rparr>],
        files = [\<lparr>f_port_id = 1, f_path = ''/usr/bin/x'', f_mtime = None\<rparr>],
        entry_procs = []\<rparr> [\<lparr>rowid = 1\<rparr>]) = 1
   \<and> reg_entry_delete (\<lambda>ix r. [])
      \<lparr>ports = [\<lparr>p_rowid = 1, p_name = Some ''vim'', p_portfile = None, p_url = None,
          p_location = None, p_epoch = Some ''0'', p_version = None, p_revision = None,
          p_variants = Some ''multibyte +'', p_state = None, p_date = None\<rparr>],
        files = [\<lparr>f_port_id = 1, f_path = ''/usr/bin/x'', f_mtime = None\<rparr>],
        entry_procs = []\<rparr> [\<lparr>rowid = 1\<rparr>]
    = (1, None,
       \<lparr>ports = [], files = [\<lparr>f_port_id = 1, f_path = ''/usr/bin/x'', f_mtime = None\<rparr>],
         entry_procs = []\<rparr>)"
  using delete_leaves_the_files_table
    [of "\<lambda>ix r. []"
        "\<lparr>ports = [\<lparr>p_rowid = 1, p_name = Some ''vim'', p_portfile = None, p_url = None,
          p_location = None, p_epoch = Some ''0'', p_version = None, p_revision = None,
          p_variants = Some ''multibyte +'', p_state = None, p_date = None\<rparr>],
          files = [\<lparr>f_port_id = 1, f_path = ''/usr/bin/x'', f_mtime = None\<rparr>],
          entry_procs = []\<rparr>"
        "\<lparr>rowid = 1\<rparr>" "[\<lparr>rowid = 1\<rparr>]"]
  by (simp add: reg_entry_delete_def delete_port_def key_found_def)

text \<open>
  The claim as stated fails. The row below has no text in \<open>version\<close> and \<open>revision\<close>, so
  nothing of its keys goes through \<open>sql_version\<close> and its \<open>DELETE\<close> completes. The
  delete of the entry succeeds and removes the row, and the row of the files table that
  points at the deleted identity is still there: the entry's path is still selected for
  rowid 1.
\<close>

theorem delete_leaves_file_ownership:
  "reg_entry_delete (\<lambda>ix r. [])
      \<lparr>ports = [\<lparr>p_rowid = 1, p_name = Some ''zlib'', p_portfile = None, p_url = None,
          p_location = None, p_epoch = Some ''0'', p_version = None, p_revision = None,
          p_variants = Some [], p_state = None, p_date = None\<rparr>],
        files = [\<lparr>f_port_id = 1, f_path = ''/opt/local/lib/libz.dylib'', f_mtime = None\<rparr>],
        entry_procs = []\<rparr> [\<lparr>rowid = 1\<rparr>]
    = (1, None,
       \<lparr>ports = [],
        files = [\<lparr>f_port_id = 1, f_path = ''/opt/local/lib/libz.dylib'', f_mtime = None\<rparr>],
        entry_procs = []\<rparr>)
   \<and> select_files
      \<lparr>ports = [],
        files = [\<lparr>f_port_id = 1, f_path = ''/opt/local/lib/libz.dylib'', f_mtime = None\<rparr>],
        entry_procs = []\<rparr> 1
    = [''/opt/local/lib/libz.dylib'']"
  by (simp add: reg_entry_delete_def delete_port_def key_found_def select_files_def)

text \<open>
  Claim C5 (a create with the identical tuple fails with DuplicateError). The registry
  holds the entry \<open>vim 7.1.000 0 {multibyte +} 0\<close> and the same tuple is created again.
  For the UNIQUE index SQLite compares the stored version with the new one through
  \<open>sql_version\<close>, which does not stop at the end of the stored text: it reads
  \<open>7.1.000\<close>, then the \<open>0\<close> of the revision and \<open>multibyte +\<close> of the variants that
  follow it in the key, and answers 1 whatever bytes come after. The two keys are not
  found equal, the INSERT succeeds, and \<open>reg_entry_create\<close> returns a second entry,
  row 2, with the same tuple.
\<close>

theorem create_accepts_the_identical_tuple:
  "sql_version (''7.1.000'' @ ''0'' @ ''multibyte +'' @ rest Unique_name
        \<lparr>p_rowid = 1, p_name = Some ''vim'', p_portfile = None, p_url = None,
          p_location = None, p_epoch = Some ''0'', p_version = Some ''7.1.000'',
          p_revision = Some ''0'', p_variants = Some ''multibyte +'', p_state = None,
          p_date = None\<rparr>)
      (''7.1.000'' @ [CHR 0x00]) = 1
   \<and> reg_entry_create rest
      \<lparr>ports = [\<lparr>p_rowid = 1, p_name = Some ''vim'', p_portfile = None, p_url = None,
          p_location = None, p_epoch = Some ''0'', p_version = Some ''7.1.000'',
          p_revision = Some ''0'', p_variants = Some ''multibyte +'', p_state = None,
          p_date = None\<rparr>], files = [], entry_procs = []\<rparr>
      ''vim'' ''7.1.000'' ''0'' ''multibyte +'' ''0''
    = (Inr \<lparr>rowid = 2\<rparr>,
       \<lparr>ports = [\<lparr>p_rowid = 1, p_name = Some ''vim'', p_portfile = None, p_url = None,
          p_location = None, p_epoch = Some ''0'', p_version = Some ''7.1.000'',
          p_revision = Some ''0'', p_variants = Some ''multibyte +'', p_state = None,
          p_date = None\<rparr>,
         \<lparr>p_rowid = 2, p_name = Some ''vim'', p_portfile = None, p_url = None,
          p_location = None, p_epoch = Some ''0'', p_version = Some ''7.1.000'',
          p_revision = Some ''0'', p_variants = Some ''multibyte +'', p_state = None,
          p_date = None\<rparr>], files = [], entry_procs = []\<rparr>)"
  using sql_version_reads_past_the_stored_text
  by (simp add: reg_entry_create_def insert_port_def unique_name_violated_def
      stored_version_equal_def text_bytes_def next_rowid_def)

section \<open>Properties of the entry commands\<close>

text \<open>
  Claim C10 (a closed entry can be found again by a later search). A registry holds one
  entry, which owns a file. A first search exposes it as \<open>registry::entry0\<close> and records
  that name in \<open>entry_procs\<close>. Closing \<open>registry::entry0\<close> deletes the command and
  writes nothing: the tables of the connection, \<open>ports\<close> and \<open>files\<close> among them, are
  the same, and so is the record in \<open>entry_procs\<close>, which \<open>entry_close\<close> does not
  remove. The later search therefore answers with the recorded name
  \<open>registry::entry0\<close>, which is no command any more: \<open>get_entry\<close> fails on it with
  \<open>registry::not-found\<close>, and no new handle is made for the entry.
\<close>

theorem search_after_close_returns_the_closed_handle:
  "entry_search
      \<lparr>commands = [(''registry::entry'', Other_command)],
        assoc_db = \<lparr>ports = [\<lparr>p_rowid = 1, p_name = Some ''vim'', p_portfile = None, p_url = None,
          p_location = None, p_epoch = Some ''0'', p_version = Some ''7.1.000'',
          p_revision = Some ''0'', p_variants = Some ''multibyte +'', p_state = None,
          p_date = None\<rparr>],
          files = [\<lparr>f_port_id = 1, f_path = ''/usr/bin/x'', f_mtime = None\<rparr>],
          entry_procs = []\<rparr>,
        assoc_attached = True\<rparr>
      [''registry::entry'', ''search'']
    = Some (TCL_OK, ListObj [''registry::entry0''],
       \<lparr>commands = [(''registry::entry0'', Entry_obj \<lparr>rowid = 1\<rparr>),
                    (''registry::entry'', Other_command)],
         assoc_db = \<lparr>ports = [\<lparr>p_rowid = 1, p_name = Some ''vim'', p_portfile = None, p_url = None,
          p_location = None, p_epoch = Some ''0'', p_version = Some ''7.1.000'',
          p_revision = Some ''0'', p_variants = Some ''multibyte +'', p_state = None,
          p_date = None\<rparr>],
          files = [\<lparr>f_port_id = 1, f_path = ''/usr/bin/x'', f_mtime = None\<rparr>],
          entry_procs = [(1, ''registry::entry0'')]\<rparr>,
         assoc_attached = True\<rparr>)
   \<and> entry_close
      \<lparr>commands = [(''registry::entry0'', Entry_obj \<lparr>rowid = 1\<rparr>),
                   (''registry::entry'', Other_command)],
        assoc_db = \<lparr>ports = [\<lparr>p_rowid = 1, p_name = Some ''vim'', p_portfile = None, p_url = None,
          p_location = None, p_epoch = Some ''0'', p_version = Some ''7.1.000'',
          p_revision = Some ''0'', p_variants = Some ''multibyte +'', p_state = None,
          p_date = None\<rparr>],
          files = [\<lparr>f_port_id = 1, f_path = ''/usr/bin/x'', f_mtime = None\<rparr>],
          entry_procs = [(1, ''registry::entry0'')]\<rparr>,
        assoc_attached = True\<rparr>
      [''registry::entry'', ''close'', ''registry::entry0'']
    = (TCL_OK, StringObj [],
       \<lparr>commands = [(''registry::entry'', Other_command)],
         assoc_db = \<lparr>ports = [\<lparr>p_rowid = 1, p_name = Some ''vim'', p_portfile = None, p_url = None,
          p_location = None, p_epoch = Some ''0'', p_version = Some ''7.1.000'',
          p_revision = Some ''0'', p_variants = Some ''multibyte +'', p_state = None,
          p_date = None\<rparr>],
          files = [\<lparr>f_port_id = 1, f_path = ''/usr/bin/x'', f_mtime = None\<rparr>],
          entry_procs = [(1, ''registry::entry0'')]\<rparr>,
         assoc_attached = True\<rparr>)
   \<and> entry_search
      \<lparr>commands = [(''registry::entry'', Other_command)],
        assoc_db = \<lparr>ports = [\<lparr>p_rowid = 1, p_name = Some ''vim'', p_portfile = None, p_url = None,
          p_location = None, p_epoch = Some ''0'', p_version = Some ''7.1.000'',
          p_revision = Some ''0'', p_variants = Some ''multibyte +'', p_state = None,
          p_date = None\<rparr>],
          files = [\<lparr>f_port_id = 1, f_path = ''/usr/bin/x'', f_mtime = None\<rparr>],
          entry_procs = [(1, ''registry::entry0'')]\<rparr>,
        assoc_attached = True\<rparr>
      [''registry::entry'', ''search'']
    = Some (TCL_OK, ListObj [''registry::entry0''],
       \<lparr>commands = [(''registry::entry'', Other_command)],
         assoc_db = \<lparr>ports = [\<lparr>p_rowid = 1, p_name = Some ''vim'', p_portfile = None, p_url = None,
          p_location = None, p_epoch = Some ''0'', p_version = Some ''7.1.000'',
          p_revision = Some ''0'', p_variants = Some ''multibyte +'', p_state = None,
          p_date = None\<rparr>],
          files = [\<lparr>f_port_id = 1, f_path = ''/usr/bin/x'', f_mtime = None\<rparr>],
          entry_procs = [(1, ''registry::entry0'')]\<rparr>,
         assoc_attached = True\<rparr>)
   \<and> get_entry
      \<lparr>commands = [(''registry::entry'', Other_command)],
        assoc_db = \<lparr>ports = [\<lparr>p_rowid = 1, p_name = Some ''vim'', p_portfile = None, p_url = None,
          p_location = None, p_epoch = Some ''0'', p_version = Some ''7.1.000'',
          p_revision = Some ''0'', p_variants = Some ''multibyte +'', p_state = None,
          p_date = None\<rparr>],
          files = [\<lparr>f_port_id = 1, f_path = ''/usr/bin/x'', f_mtime = None\<rparr>],
          entry_procs = [(1, ''registry::entry0'')]\<rparr>,
        assoc_attached = True\<rparr>
      ''registry::entry0''
    = Inl \<lparr>code = ''registry::not-found'',
           description = Static (''could not find entry '' @ [CHR 0x22] @ ''registry::entry0''
             @ [CHR 0x22])\<rparr>"
  by code_simp

text \<open>
  Claim C6 (every predicate of a search is applied). With two predicates, as in
  \<open>registry::entry search name vim state active\<close>, \<open>key_count\<close> is 2 and the loop
  that fills \<open>keys\<close> and \<open>vals\<close> steps \<open>i\<close> by 2: it assigns slot 0 and never slot 1,
  so the second key and value handed to \<open>reg_entry_search\<close> are uninitialised memory,
  not \<open>state\<close> and \<open>active\<close>.
\<close>

theorem search_drops_second_predicate:
  "search_args [''registry::entry'', ''search'', ''name'', ''vim'', ''state'', ''active''] 2 0
      ([None, None], [None, None])
    = ([Some ''name'', None], [Some ''vim'', None])
   \<and> entry_search
      \<lparr>commands = [(''registry::entry'', Other_command)],
        assoc_db = \<lparr>ports = [\<lparr>p_rowid = 1, p_name = Some ''vim'', p_portfile = None, p_url = None,
          p_location = None, p_epoch = Some ''0'', p_version = Some ''7.1.000'',
          p_revision = Some ''0'', p_variants = Some ''multibyte +'', p_state = None,
          p_date = None\<rparr>], files = [], entry_procs = []\<rparr>,
        assoc_attached = True\<rparr>
      [''registry::entry'', ''search'', ''name'', ''vim'', ''state'', ''active'']
    = None"
  by code_simp

text \<open>
  Claim C9 (one handle for one entry). \<open>entry_create\<close> binds a new procedure to the new
  entry and does not record it in \<open>entry_procs\<close>, so the first search finds no record
  for the row and \<open>entry_to_obj\<close> binds a second procedure to it: after a create and a
  search in an empty registry, \<open>registry::entry0\<close> and \<open>registry::entry1\<close> both stand
  for row 1.
\<close>

theorem create_then_search_gives_second_handle:
  "entry_create
      \<lparr>commands = [(''registry::entry'', Other_command)],
        assoc_db = \<lparr>ports = [], files = [], entry_procs = []\<rparr>, assoc_attached = True\<rparr>
      [''registry::entry'', ''create'', ''vim'', ''7.1.000'', ''0'', ''multibyte +'', ''0'']
    = (TCL_OK, StringObj ''registry::entry0'',
       \<lparr>commands = [(''registry::entry0'', Entry_obj \<lparr>rowid = 1\<rparr>),
                    (''registry::entry'', Other_command)],
         assoc_db = \<lparr>ports = [\<lparr>p_rowid = 1, p_name = Some ''vim'', p_portfile = None, p_url = None,
          p_location = None, p_epoch = Some ''0'', p_version = Some ''7.1.000'',
          p_revision = Some ''0'', p_variants = Some ''multibyte +'', p_state = None,
          p_date = None\<rparr>], files = [], entry_procs = []\<rparr>,
         assoc_attached = True\<rparr>)
   \<and> entry_search
      \<lparr>commands = [(''registry::entry0'', Entry_obj \<lparr>rowid = 1\<rparr>),
                   (''registry::entry'', Other_command)],
        assoc_db = \<lparr>ports = [\<lparr>p_rowid = 1, p_name = Some ''vim'', p_portfile = None, p_url = None,
          p_location = None, p_epoch = Some ''0'', p_version = Some ''7.1.000'',
          p_revision = Some ''0'', p_variants = Some ''multibyte +'', p_state = None,
          p_date = None\<rparr>], files = [], entry_procs = []\<rparr>,
        assoc_attached = True\<rparr>
      [''registry::entry'', ''search'']
    = Some (TCL_OK, ListObj [''registry::entry1''],
       \<lparr>commands = [(''registry::entry1'', Entry_obj \<lparr>rowid = 1\<rparr>),
                    (''registry::entry0'', Entry_obj \<lparr>rowid = 1\<rparr>),
                    (''registry::entry'', Other_command)],
         assoc_db = \<lparr>ports = [\<lparr>p_rowid = 1, p_name = Some ''vim'', p_portfile = None, p_url = None,
          p_location = None, p_epoch = Some ''0'', p_version = Some ''7.1.000'',
          p_revision = Some ''0'', p_variants = Some ''multibyte +'', p_state = None,
          p_date = None\<rparr>], files = [],
                      entry_procs = [(1, ''registry::entry1'')]\<rparr>,
         assoc_attached = True\<rparr>)"
  by code_simp

end
